theory Spec2Isabelle
  imports Complex_Main "HOL-Library.Sublist"
begin

section \<open>Stock portfolio tracker: the model\<close>

text \<open>
  A shallow embedding of \<^verbatim>\<open>src/stock_bot.py\<close>. The script fetches two days of
  closing prices for every entry of \<^verbatim>\<open>PORTFOLIO\<close>, sums value and daily change,
  renders a text report and posts it to a Slack webhook.

  Conventions of the model:
  \<^item> Closing prices and quantities are finite real numbers, and sums, differences and
    products of them are exact: rounding and overflow are outside the model, and so are
    closing prices that are infinite or NaN.
  \<^item> The elements of the \<^verbatim>\<open>Close\<close> column are numpy floats: a division by zero
    does not raise, it yields \<^verbatim>\<open>inf\<close>, \<^verbatim>\<open>-inf\<close> or \<^verbatim>\<open>nan\<close>. The
    two percentages are results of a division, so they have the type \<open>flt\<close> of floats
    with these three extra values.
  \<^item> The numeric parameters of \<^verbatim>\<open>format_message\<close> also have the type \<open>flt\<close>: the
    function compares and prints whatever float it is handed.
  \<^item> The outside world is a parameter: the market-data provider is a function from a
    symbol to what \<^verbatim>\<open>history(period='2d')\<close> does, the webhook a function
    from a request to what \<^verbatim>\<open>requests.post\<close> does, the clock the rendered
    timestamp, the number formats of the f-strings five functions.
  \<^item> Every call that goes to the network is recorded as an \<open>event\<close>, in order.
  \<^item> \<^verbatim>\<open>sys.exit\<close> is the outcome \<open>SysExit\<close>; \<open>main\<close> returns the
    exit code of the process.
  \<^item> Console output (\<^verbatim>\<open>print\<close>) is not modelled.
  \<^item> String literals outside ASCII are given by the bytes they have in the source file.
\<close>

subsection \<open>Numbers\<close>

datatype flt = Finite real | PosInf | NegInf | NaN

definition np_div :: "real \<Rightarrow> real \<Rightarrow> flt" where
  \<comment> \<open>\<^verbatim>\<open>a / b\<close> on numpy floats: no exception on a zero divisor. The zero of the
      model is the float \<^verbatim>\<open>0.0\<close>.\<close>
  "np_div a b =
     (if b \<noteq> 0 then Finite (a / b)
      else if 0 < a then PosInf
      else if a < 0 then NegInf
      else NaN)"

fun flt_times :: "flt \<Rightarrow> real \<Rightarrow> flt" where
  "flt_times (Finite q) r = Finite (q * r)"
| "flt_times PosInf r = (if 0 < r then PosInf else if r < 0 then NegInf else NaN)"
| "flt_times NegInf r = (if 0 < r then NegInf else if r < 0 then PosInf else NaN)"
| "flt_times NaN r = NaN"

text \<open>The comparisons \<^verbatim>\<open>x > 0\<close> and \<^verbatim>\<open>x < 0\<close> on a float: both are false for NaN.\<close>

fun gt_zero :: "flt \<Rightarrow> bool" where
  "gt_zero (Finite r) = (0 < r)"
| "gt_zero PosInf = True"
| "gt_zero NegInf = False"
| "gt_zero NaN = False"

fun lt_zero :: "flt \<Rightarrow> bool" where
  "lt_zero (Finite r) = (r < 0)"
| "lt_zero PosInf = False"
| "lt_zero NegInf = True"
| "lt_zero NaN = False"

subsection \<open>The outside world\<close>

datatype fetch_result =
    ProviderError           \<comment> \<open>any exception raised inside the \<^verbatim>\<open>try\<close> block\<close>
  | History "real list"     \<comment> \<open>the \<^verbatim>\<open>Close\<close> column, oldest first\<close>

datatype post_result =
    Response nat string     \<comment> \<open>\<^verbatim>\<open>status_code\<close> and \<^verbatim>\<open>text\<close>\<close>
  | TransportError          \<comment> \<open>any exception raised by \<^verbatim>\<open>requests.post\<close>\<close>

type_synonym json_object = "(string \<times> string) list"

datatype event =
    Fetch string
  | Post string json_object "(string \<times> string) list" nat
    \<comment> \<open>URL, JSON body, headers, timeout in seconds\<close>

record formats =
  fmt_str :: "real \<Rightarrow> string"    \<comment> \<open>\<^verbatim>\<open>{x}\<close>\<close>
  fmt_2f :: "flt \<Rightarrow> string"      \<comment> \<open>\<^verbatim>\<open>{x:.2f}\<close>\<close>
  fmt_c2f :: "flt \<Rightarrow> string"     \<comment> \<open>\<^verbatim>\<open>{x:,.2f}\<close>\<close>
  fmt_p2f :: "flt \<Rightarrow> string"     \<comment> \<open>\<^verbatim>\<open>{x:+.2f}\<close>\<close>
  fmt_pc2f :: "flt \<Rightarrow> string"    \<comment> \<open>\<^verbatim>\<open>{x:+,.2f}\<close>\<close>

record env =
  SLACK_WEBHOOK_URL :: "string option"
  PORTFOLIO :: "(string \<times> real) list"   \<comment> \<open>the dictionary's items, in order\<close>
  history :: "string \<Rightarrow> fetch_result"
  requests_post :: "string \<Rightarrow> json_object \<Rightarrow> (string \<times> string) list \<Rightarrow> nat \<Rightarrow> post_result"
  now :: string     \<comment> \<open>\<^verbatim>\<open>datetime.now().strftime('%B %d, %Y at %I:%M %p EST')\<close>\<close>
  fmt :: formats

subsection \<open>\<^verbatim>\<open>get_stock_data\<close>\<close>

record stock_data =
  symbol :: string
  price :: real
  change :: real
  change_pct :: flt

definition get_stock_data :: "(string \<Rightarrow> fetch_result) \<Rightarrow> string \<Rightarrow> stock_data option" where
  "get_stock_data hist symb =
     (case hist symb of
        ProviderError \<Rightarrow> None
      | History h \<Rightarrow>
          if length h < 1 then None
          else
            let current_price = last h in
            if length h \<ge> 2 then
              let prev_price = h ! (length h - 2);
                  chg = current_price - prev_price
              in Some \<lparr>symbol = symb, price = current_price, change = chg,
                       change_pct = flt_times (np_div chg prev_price) 100\<rparr>
            else
              Some \<lparr>symbol = symb, price = current_price, change = 0,
                    change_pct = Finite 0\<rparr>)"

subsection \<open>\<^verbatim>\<open>calculate_portfolio\<close>\<close>

text \<open>
  An entry of \<^verbatim>\<open>portfolio_data\<close> has the keys of the fetched data and three more.
  The key \<^verbatim>\<open>value\<close> is the field \<open>val\<close>.
\<close>

record holding = stock_data +
  shares :: real
  val :: real
  daily_change :: real

text \<open>The body of the \<^verbatim>\<open>for\<close> loop, on the four variables it updates.\<close>

fun portfolio_loop ::
  "(string \<Rightarrow> fetch_result) \<Rightarrow> (string \<times> real) list \<Rightarrow>
   holding list \<Rightarrow> real \<Rightarrow> real \<Rightarrow> event list \<Rightarrow>
   holding list \<times> real \<times> real \<times> event list" where
  "portfolio_loop hist [] portfolio_data total_value total_daily_change evs =
     (portfolio_data, total_value, total_daily_change, evs)"
| "portfolio_loop hist ((symb, shrs) # rest) portfolio_data total_value total_daily_change evs =
     (case get_stock_data hist symb of
        None \<Rightarrow>
          portfolio_loop hist rest portfolio_data total_value total_daily_change
            (evs @ [Fetch symb])
      | Some data \<Rightarrow>
          let v = price data * shrs;
              dc = change data * shrs
          in portfolio_loop hist rest
               (portfolio_data @
                  [\<lparr>symbol = symb, price = price data, change = change data,
                    change_pct = change_pct data,
                    shares = shrs, val = v, daily_change = dc\<rparr>])
               (total_value + v) (total_daily_change + dc)
               (evs @ [Fetch symb]))"

definition total_change_pct_of :: "real \<Rightarrow> real \<Rightarrow> flt" where
  \<comment> \<open>Line 94: the guard is on the total value.\<close>
  "total_change_pct_of total_value total_daily_change =
     (if total_value > 0
      then flt_times (np_div total_daily_change (total_value - total_daily_change)) 100
      else Finite 0)"

definition calculate_portfolio ::
  "(string \<Rightarrow> fetch_result) \<Rightarrow> (string \<times> real) list \<Rightarrow>
   (holding list \<times> real \<times> real \<times> flt) \<times> event list" where
  "calculate_portfolio hist portfolio =
     (case portfolio_loop hist portfolio [] 0 0 [] of
        (portfolio_data, total_value, total_daily_change, evs) \<Rightarrow>
          ((portfolio_data, total_value, total_daily_change,
            total_change_pct_of total_value total_daily_change), evs))"

subsection \<open>\<^verbatim>\<open>format_message\<close>\<close>

definition chart_up :: string where
  "chart_up = [CHR 0xC3, CHR 0xB0, CHR 0xC5, CHR 0xB8, CHR 0xE2, CHR 0x80, CHR 0x9C,
               CHR 0xCB, CHR 0x86]"

definition chart_down :: string where
  "chart_down = [CHR 0xC3, CHR 0xB0, CHR 0xC5, CHR 0xB8, CHR 0xE2, CHR 0x80, CHR 0x9C,
                 CHR 0xE2, CHR 0x80, CHR 0xB0]"

definition arrow_right :: string where
  "arrow_right = [CHR 0xC3, CHR 0xA2, CHR 0xC5, CHR 0xBE, CHR 0xC2, CHR 0xA1, CHR 0xC3,
                  CHR 0xAF, CHR 0xC2, CHR 0xB8]"

definition green_circle :: string where
  "green_circle = [CHR 0xC3, CHR 0xB0, CHR 0xC5, CHR 0xB8, CHR 0xC5, CHR 0xB8, CHR 0xC2,
                   CHR 0xA2]"

definition red_circle :: string where
  "red_circle = [CHR 0xC3, CHR 0xB0, CHR 0xC5, CHR 0xB8, CHR 0xE2, CHR 0x80, CHR 0x9D,
                 CHR 0xC2, CHR 0xB4]"

definition box_dash :: string where
  "box_dash = [CHR 0xC3, CHR 0xA2, CHR 0xE2, CHR 0x80, CHR 0x9D, CHR 0xE2, CHR 0x82,
               CHR 0xAC]"

definition nl :: string where
  "nl = [CHR 0x0A]"

definition to_upper :: "char \<Rightarrow> char" where
  "to_upper c =
     (let n = (of_char c :: nat) in if 97 \<le> n \<and> n \<le> 122 then char_of (n - 32) else c)"

definition to_lower :: "char \<Rightarrow> char" where
  "to_lower c =
     (let n = (of_char c :: nat) in if 65 \<le> n \<and> n \<le> 90 then char_of (n + 32) else c)"

fun capitalize :: "string \<Rightarrow> string" where
  \<comment> \<open>\<^verbatim>\<open>str.capitalize\<close> on ASCII text\<close>
  "capitalize [] = []"
| "capitalize (c # cs) = to_upper c # map to_lower cs"

definition performance :: "flt \<Rightarrow> string \<times> string" where
  \<comment> \<open>Lines 105 to 113: the pair \<^verbatim>\<open>(emoji, trend)\<close>.\<close>
  "performance total_daily_change =
     (if gt_zero total_daily_change then (chart_up, ''up'')
      else if lt_zero total_daily_change then (chart_down, ''down'')
      else (arrow_right, ''flat''))"

definition change_emoji :: "holding \<Rightarrow> string" where
  "change_emoji stock = (if change stock \<ge> 0 then green_circle else red_circle)"

definition holding_block :: "formats \<Rightarrow> holding \<Rightarrow> string" where
  \<comment> \<open>What one pass of the loop of lines 118 to 122 appends.\<close>
  "holding_block f stock =
     change_emoji stock @ '' *'' @ symbol stock @ ''*'' @ nl
     @ ''  '' @ fmt_str f (shares stock) @ '' shares @ $''
       @ fmt_2f f (Finite (price stock)) @ '' = $'' @ fmt_c2f f (Finite (val stock)) @ nl
     @ ''  Today: $'' @ fmt_p2f f (Finite (change stock)) @ '' (''
       @ fmt_p2f f (change_pct stock) @ ''%)'' @ nl @ nl"

definition header :: "string \<Rightarrow> string \<Rightarrow> string" where
  "header emoji timestamp = emoji @ '' *Portfolio Update - '' @ timestamp @ ''*'' @ nl @ nl"

definition summary :: "formats \<Rightarrow> flt \<Rightarrow> flt \<Rightarrow> flt \<Rightarrow> string \<Rightarrow> string" where
  "summary f total_value total_daily_change total_change_pct trend =
     concat (replicate 21 box_dash) @ nl
     @ ''*Total Portfolio Value:* $'' @ fmt_c2f f total_value @ nl
     @ ''*Today's Change:* $'' @ fmt_pc2f f total_daily_change
       @ '' ('' @ fmt_p2f f total_change_pct @ ''%)'' @ nl
     @ ''*Trend:* '' @ capitalize trend"

definition format_message ::
  "formats \<Rightarrow> string \<Rightarrow> holding list \<Rightarrow> flt \<Rightarrow> flt \<Rightarrow> flt \<Rightarrow> string" where
  "format_message f timestamp portfolio_data total_value total_daily_change total_change_pct =
     (case performance total_daily_change of
        (emoji, trend) \<Rightarrow>
          foldl (\<lambda>message stock. message @ holding_block f stock)
                (header emoji timestamp) portfolio_data
          @ summary f total_value total_daily_change total_change_pct trend)"

subsection \<open>\<^verbatim>\<open>send_to_slack\<close> and \<^verbatim>\<open>main\<close>\<close>

datatype 'a outcome = SysExit nat | Return 'a

definition slack_data :: "string \<Rightarrow> json_object" where
  "slack_data message =
     [(''text'', message),
      (''username'', ''Stock Tracker Bot''),
      (''icon_emoji'', '':chart_with_upwards_trend:'')]"

definition post_headers :: "(string \<times> string) list" where
  "post_headers = [(''Content-Type'', ''application/json'')]"

definition send_to_slack :: "env \<Rightarrow> string \<Rightarrow> bool outcome \<times> event list" where
  \<comment> \<open>\<^verbatim>\<open>not SLACK_WEBHOOK_URL\<close> holds when the variable is unset or empty.\<close>
  "send_to_slack E message =
     (case SLACK_WEBHOOK_URL E of
        None \<Rightarrow> (SysExit 1, [])
      | Some url \<Rightarrow>
          if url = [] then (SysExit 1, [])
          else
            let evs = [Post url (slack_data message) post_headers 10]
            in (case requests_post E url (slack_data message) post_headers 10 of
                  Response status_code body \<Rightarrow>
                    if status_code = 200 then (Return True, evs) else (Return False, evs)
                | TransportError \<Rightarrow> (Return False, evs)))"

definition main :: "env \<Rightarrow> nat \<times> event list" where
  "main E =
     (case calculate_portfolio (history E) (PORTFOLIO E) of
        ((portfolio_data, total_value, total_daily_change, total_change_pct), evs1) \<Rightarrow>
          let message = format_message (fmt E) (now E) portfolio_data (Finite total_value)
                          (Finite total_daily_change) total_change_pct
          in (case send_to_slack E message of
                (SysExit code, evs2) \<Rightarrow> (code, evs1 @ evs2)
              | (Return success, evs2) \<Rightarrow> ((if success then 0 else 1), evs1 @ evs2)))"

section \<open>Auxiliary notions\<close>

text \<open>The message that \<open>main\<close> hands to \<open>send_to_slack\<close>.\<close>

definition report :: "env \<Rightarrow> string" where
  "report E =
     (case fst (calculate_portfolio (history E) (PORTFOLIO E)) of
        (portfolio_data, total_value, total_daily_change, total_change_pct) \<Rightarrow>
          format_message (fmt E) (now E) portfolio_data (Finite total_value)
            (Finite total_daily_change) total_change_pct)"

fun is_post :: "event \<Rightarrow> bool" where
  "is_post (Post url body hdrs t) = True"
| "is_post (Fetch s) = False"

text \<open>The entries the loop appends, as a function of the portfolio.\<close>

fun included :: "(string \<Rightarrow> fetch_result) \<Rightarrow> (string \<times> real) list \<Rightarrow> holding list" where
  "included hist [] = []"
| "included hist ((symb, shrs) # rest) =
     (case get_stock_data hist symb of
        None \<Rightarrow> included hist rest
      | Some data \<Rightarrow>
          \<lparr>symbol = symb, price = price data, change = change data,
           change_pct = change_pct data,
           shares = shrs, val = price data * shrs, daily_change = change data * shrs\<rparr>
          # included hist rest)"

subsection \<open>Sample inputs\<close>

definition plain_formats :: formats where
  "plain_formats =
     \<lparr>fmt_str = (\<lambda>x. ''#''), fmt_2f = (\<lambda>x. ''#''), fmt_c2f = (\<lambda>x. ''#''),
      fmt_p2f = (\<lambda>x. ''#''), fmt_pc2f = (\<lambda>x. ''#'')\<rparr>"

text \<open>The scenario of the specification: A closed at 10 then 12, B at 50 then 50.\<close>

definition scenario_history :: "string \<Rightarrow> fetch_result" where
  "scenario_history s =
     (if s = ''A'' then History [10, 12]
      else if s = ''B'' then History [50, 50]
      else ProviderError)"

definition scenario_portfolio :: "(string \<times> real) list" where
  "scenario_portfolio = [(''A'', 2), (''B'', 1)]"

definition scenario_env :: "string option \<Rightarrow> post_result \<Rightarrow> env" where
  "scenario_env url answer =
     \<lparr>SLACK_WEBHOOK_URL = url, PORTFOLIO = scenario_portfolio,
      history = scenario_history, requests_post = (\<lambda>u b h t. answer),
      now = ''November 06, 2026 at 09:00 AM EST'', fmt = plain_formats\<rparr>"

text \<open>A previous close of zero, and a short position next to a long one.\<close>

definition zero_prev_history :: "string \<Rightarrow> fetch_result" where
  "zero_prev_history s = History [0, 5]"

definition short_history :: "string \<Rightarrow> fetch_result" where
  "short_history s = (if s = ''A'' then History [10, 20] else History [40, 40])"

text \<open>One day of history for C, none for D, a provider error for everything else.\<close>

definition patchy_history :: "string \<Rightarrow> fetch_result" where
  "patchy_history s =
     (if s = ''C'' then History [7]
      else if s = ''D'' then History []
      else ProviderError)"

definition patchy_env :: "string option \<Rightarrow> post_result \<Rightarrow> env" where
  "patchy_env url answer =
     \<lparr>SLACK_WEBHOOK_URL = url, PORTFOLIO = [(''D'', 3), (''E'', 1)],
      history = patchy_history, requests_post = (\<lambda>u b h t. answer),
      now = ''November 06, 2026 at 09:00 AM EST'', fmt = plain_formats\<rparr>"

section \<open>Properties\<close>

subsection \<open>Fetching and the loop\<close>

lemma get_stock_data_None_iff:
  "get_stock_data hist symb = None \<longleftrightarrow> hist symb = ProviderError \<or> hist symb = History []"
  by (cases "hist symb") (auto simp: get_stock_data_def Let_def)

lemma get_stock_data_two_days:
  assumes "hist symb = History h" and "2 \<le> length h"
  shows "get_stock_data hist symb =
           Some \<lparr>symbol = symb, price = last h, change = last h - h ! (length h - 2),
                 change_pct = flt_times (np_div (last h - h ! (length h - 2))
                                                (h ! (length h - 2))) 100\<rparr>"
proof -
  from assms(2) have "\<not> length h < 1" by auto
  with assms show ?thesis by (simp add: get_stock_data_def Let_def)
qed

lemma get_stock_data_one_day:
  assumes "hist symb = History h" and "length h = 1"
  shows "get_stock_data hist symb =
           Some \<lparr>symbol = symb, price = last h, change = 0, change_pct = Finite 0\<rparr>"
  using assms by (simp add: get_stock_data_def Let_def)

lemma portfolio_loop_included:
  "portfolio_loop hist pf pd tv tdc evs =
     (pd @ included hist pf,
      tv + sum_list (map val (included hist pf)),
      tdc + sum_list (map daily_change (included hist pf)),
      evs @ map (Fetch \<circ> fst) pf)"
proof (induction pf arbitrary: pd tv tdc evs)
  case Nil
  show ?case by simp
next
  case (Cons entry rest)
  obtain symb shrs where entry: "entry = (symb, shrs)" by (cases entry)
  show ?case
  proof (cases "get_stock_data hist symb")
    case None
    then show ?thesis by (simp add: entry Cons.IH)
  next
    case (Some data)
    then show ?thesis by (simp add: entry Cons.IH Let_def add.assoc)
  qed
qed

lemma calculate_portfolio_included:
  "calculate_portfolio hist pf =
     ((included hist pf,
       sum_list (map val (included hist pf)),
       sum_list (map daily_change (included hist pf)),
       total_change_pct_of (sum_list (map val (included hist pf)))
                           (sum_list (map daily_change (included hist pf)))),
      map (Fetch \<circ> fst) pf)"
  by (simp add: calculate_portfolio_def portfolio_loop_included)

lemma included_filter:
  "included hist (filter (\<lambda>(s, q). hist s \<noteq> ProviderError \<and> hist s \<noteq> History []) pf)
     = included hist pf"
proof (induction pf)
  case Nil
  show ?case by simp
next
  case (Cons entry rest)
  obtain symb shrs where entry: "entry = (symb, shrs)" by (cases entry)
  show ?case
  proof (cases "get_stock_data hist symb")
    case None
    then show ?thesis using Cons.IH get_stock_data_None_iff[of hist symb]
      by (auto simp: entry)
  next
    case (Some data)
    then have "hist symb \<noteq> ProviderError \<and> hist symb \<noteq> History []"
      using get_stock_data_None_iff[of hist symb] by auto
    then show ?thesis using Some Cons.IH by (simp add: entry)
  qed
qed

lemma included_symbol_fetched:
  "l \<in> set (included hist pf) \<Longrightarrow> get_stock_data hist (symbol l) \<noteq> None"
proof (induction pf)
  case Nil
  then show ?case by simp
next
  case (Cons entry rest)
  obtain symb shrs where entry: "entry = (symb, shrs)" by (cases entry)
  show ?case
  proof (cases "get_stock_data hist symb")
    case None
    then show ?thesis using Cons by (simp add: entry)
  next
    case (Some data)
    then show ?thesis using Cons by (auto simp: entry)
  qed
qed

lemma included_member:
  assumes "(symb, shrs) \<in> set pf" and "get_stock_data hist symb = Some data"
  shows "\<lparr>symbol = symb, price = price data, change = change data,
           change_pct = change_pct data,
           shares = shrs, val = price data * shrs, daily_change = change data * shrs\<rparr>
         \<in> set (included hist pf)"
  using assms
proof (induction pf)
  case Nil
  then show ?case by simp
next
  case (Cons entry rest)
  obtain s q where entry: "entry = (s, q)" by (cases entry)
  show ?case
  proof (cases "get_stock_data hist s")
    case None
    then show ?thesis using Cons by (auto simp: entry)
  next
    case (Some d)
    then show ?thesis using Cons by (auto simp: entry)
  qed
qed

lemma format_message_blocks:
  "format_message f t pd tv tdc pct =
     header (fst (performance tdc)) t @ concat (map (holding_block f) pd)
     @ summary f tv tdc pct (snd (performance tdc))"
proof -
  have "foldl (\<lambda>message stock. message @ holding_block f stock) start pd
          = start @ concat (map (holding_block f) pd)" for start
    by (induction pd arbitrary: start) simp_all
  then show ?thesis
    by (simp add: format_message_def split: prod.splits)
qed

lemma main_report:
  "main E =
     (case send_to_slack E (report E) of
        (SysExit code, evs2) \<Rightarrow> (code, map (Fetch \<circ> fst) (PORTFOLIO E) @ evs2)
      | (Return success, evs2) \<Rightarrow>
          ((if success then 0 else 1), map (Fetch \<circ> fst) (PORTFOLIO E) @ evs2))"
  by (simp add: main_def report_def calculate_portfolio_included Let_def)

lemma filter_is_post_fetches:
  "filter is_post (map (Fetch \<circ> fst) pf) = []"
  by (induction pf) simp_all


subsection \<open>The guard of the total change percent\<close>

text \<open>
  Claim C1, as amended. The guard of line 94 is on the total value, not on the divisor:
  whenever the total value is at most 0, the total change percent is 0; whenever the total
  value and the divisor \<open>total_value - total_daily_change\<close> are both positive, it is
  \<open>total_daily_change / (total_value - total_daily_change) * 100\<close>. Nothing is stated
  for a positive total value with a divisor that is zero or negative.
\<close>

theorem total_change_pct_guard:
  assumes "calculate_portfolio hist pf = ((pd, tv, tdc, pct), evs)"
  shows "(tv \<le> 0 \<longrightarrow> pct = Finite 0)
       \<and> (0 < tv \<and> 0 < tv - tdc \<longrightarrow> pct = Finite (tdc / (tv - tdc) * 100))"
proof -
  from assms have pct: "pct = total_change_pct_of tv tdc"
    by (auto simp: calculate_portfolio_included)
  have "pct = Finite 0" if "tv \<le> 0"
    using that by (simp add: pct total_change_pct_of_def)
  moreover have "pct = Finite (tdc / (tv - tdc) * 100)" if "0 < tv \<and> 0 < tv - tdc"
    using that by (simp add: pct total_change_pct_of_def np_div_def)
  ultimately show ?thesis by blast
qed

text \<open>
  The scenario of the specification has total value 74 and divisor 70; a portfolio whose
  fetches all fail has total value 0.
\<close>

theorem total_change_pct_guard_witness:
  "calculate_portfolio scenario_history scenario_portfolio
     = (([\<lparr>symbol = ''A'', price = 12, change = 2, change_pct = Finite 20,
            shares = 2, val = 24, daily_change = 4\<rparr>,
          \<lparr>symbol = ''B'', price = 50, change = 0, change_pct = Finite 0,
            shares = 1, val = 50, daily_change = 0\<rparr>],
         74, 4, Finite (4 / (74 - 4) * 100)), [Fetch ''A'', Fetch ''B''])
   \<and> calculate_portfolio patchy_history [(''D'', 3), (''E'', 1)]
     = (([], 0, 0, Finite 0), [Fetch ''D'', Fetch ''E''])"
proof -
  obtain pct where run: "calculate_portfolio scenario_history scenario_portfolio
     = (([\<lparr>symbol = ''A'', price = 12, change = 2, change_pct = Finite 20,
            shares = 2, val = 24, daily_change = 4\<rparr>,
          \<lparr>symbol = ''B'', price = 50, change = 0, change_pct = Finite 0,
            shares = 1, val = 50, daily_change = 0\<rparr>],
         74, 4, pct), [Fetch ''A'', Fetch ''B''])"
    by (simp add: calculate_portfolio_def scenario_history_def scenario_portfolio_def
        get_stock_data_def np_div_def)
  from total_change_pct_guard[OF run] have "pct = Finite (4 / (74 - 4) * 100)"
    by simp
  with run have first: "calculate_portfolio scenario_history scenario_portfolio
     = (([\<lparr>symbol = ''A'', price = 12, change = 2, change_pct = Finite 20,
            shares = 2, val = 24, daily_change = 4\<rparr>,
          \<lparr>symbol = ''B'', price = 50, change = 0, change_pct = Finite 0,
            shares = 1, val = 50, daily_change = 0\<rparr>],
         74, 4, Finite (4 / (74 - 4) * 100)), [Fetch ''A'', Fetch ''B''])"
    by simp
  obtain pct' where run': "calculate_portfolio patchy_history [(''D'', 3), (''E'', 1)]
     = (([], 0, 0, pct'), [Fetch ''D'', Fetch ''E''])"
    by (simp add: calculate_portfolio_def patchy_history_def get_stock_data_def)
  from total_change_pct_guard[OF run'] have "pct' = Finite 0"
    by simp
  with run' first show ?thesis by simp
qed

text \<open>
  The original claim fails when the previous close is 0: for one share that closed at 0 and
  then at 5, the total value is 5 and the total daily change is 5, so the difference is 0,
  which is at most 0; the guard lets the division through and the total change percent is
  infinite, not 0.
\<close>

theorem total_change_pct_guard_counterexample:
  "calculate_portfolio zero_prev_history [(''A'', 1)]
     = (([\<lparr>symbol = ''A'', price = 5, change = 5, change_pct = PosInf,
            shares = 1, val = 5, daily_change = 5\<rparr>],
         5, 5, PosInf), [Fetch ''A''])
   \<and> (5::real) - 5 \<le> 0 \<and> PosInf \<noteq> Finite 0"
  by (simp add: calculate_portfolio_def zero_prev_history_def
      get_stock_data_def np_div_def total_change_pct_of_def)

subsection \<open>A missing webhook URL\<close>

text \<open>
  Claim C2, as amended. When \<^verbatim>\<open>SLACK_WEBHOOK_URL\<close> is unset the program exits with
  code 1 and makes no webhook POST. The check sits in \<open>send_to_slack\<close>, which
  \<open>main\<close> calls last: by then the market data of every holding has been requested, one
  request per holding, in the order of the portfolio.
\<close>

theorem unset_webhook_exit:
  assumes "SLACK_WEBHOOK_URL E = None"
  shows "main E = (1, map (Fetch \<circ> fst) (PORTFOLIO E))
       \<and> filter is_post (snd (main E)) = []"
proof -
  have "main E = (1, map (Fetch \<circ> fst) (PORTFOLIO E))"
    using assms by (simp add: main_report send_to_slack_def)
  then show ?thesis by (simp add: filter_is_post_fetches)
qed

text \<open>
  In the scenario of the specification with the URL unset: exit code 1, two requests to the
  provider, none to the webhook.
\<close>

theorem unset_webhook_exit_witness:
  "main (scenario_env None (Response 200 ''ok'')) = (1, [Fetch ''A'', Fetch ''B''])"
  using unset_webhook_exit[of "scenario_env None (Response 200 ''ok'')"]
  by (simp add: scenario_env_def scenario_portfolio_def)

text \<open>
  The run with the URL unset does perform HTTP calls before it exits: the list of its
  network events is not empty.
\<close>

theorem unset_webhook_fetches_counterexample:
  "main (scenario_env None (Response 200 ''ok'')) = (1, [Fetch ''A'', Fetch ''B''])
   \<and> [Fetch ''A'', Fetch ''B''] \<noteq> []"
  by (simp add: main_report send_to_slack_def scenario_env_def scenario_portfolio_def)


subsection \<open>The request to the webhook\<close>

text \<open>
  Claim C3, as amended. When the webhook URL is configured, the run makes one POST to it,
  with a timeout of 10 seconds, and its JSON body has exactly the keys \<^verbatim>\<open>text\<close>
  (the formatted report), \<^verbatim>\<open>username\<close> and \<^verbatim>\<open>icon_emoji\<close>.
\<close>

theorem webhook_request:
  assumes "SLACK_WEBHOOK_URL E = Some url" and "url \<noteq> []"
  shows "filter is_post (snd (main E))
           = [Post url
                [(''text'', report E),
                 (''username'', ''Stock Tracker Bot''),
                 (''icon_emoji'', '':chart_with_upwards_trend:'')]
                [(''Content-Type'', ''application/json'')] 10]
       \<and> map fst (slack_data (report E)) = [''text'', ''username'', ''icon_emoji'']"
proof -
  have "snd (send_to_slack E (report E))
          = [Post url (slack_data (report E)) post_headers 10]"
    using assms by (simp add: send_to_slack_def Let_def split: post_result.splits)
  then have "snd (main E) = map (Fetch \<circ> fst) (PORTFOLIO E)
                 @ [Post url (slack_data (report E)) post_headers 10]"
    by (cases "send_to_slack E (report E)"; cases "fst (send_to_slack E (report E))")
       (simp_all add: main_report)
  then show ?thesis
    by (simp add: filter_is_post_fetches slack_data_def post_headers_def)
qed

text \<open>
  The scenario of the specification with a configured URL.
\<close>

theorem webhook_request_witness:
  "filter is_post (snd (main (scenario_env (Some ''https://hooks.example/T'') (Response 200 ''ok''))))
     = [Post ''https://hooks.example/T''
          [(''text'', report (scenario_env (Some ''https://hooks.example/T'') (Response 200 ''ok''))),
           (''username'', ''Stock Tracker Bot''),
           (''icon_emoji'', '':chart_with_upwards_trend:'')]
          [(''Content-Type'', ''application/json'')] 10]"
  using webhook_request[of "scenario_env (Some ''https://hooks.example/T'') (Response 200 ''ok'')"
                           "''https://hooks.example/T''"]
  by (simp add: scenario_env_def)

text \<open>
  The body has no key \<^verbatim>\<open>icon\<close>: the third key is \<^verbatim>\<open>icon_emoji\<close>.
\<close>

theorem webhook_icon_key_counterexample:
  "map fst (slack_data ''report'') = [''text'', ''username'', ''icon_emoji'']
   \<and> ''icon'' \<notin> set (map fst (slack_data ''report''))"
  by (simp add: slack_data_def)


subsection \<open>Value and daily change of a holding\<close>

text \<open>
  Claim C4. For a holding of the portfolio whose fetch returns at least two closes, the
  entry computed for it has value latest close times quantity and daily change (latest
  close minus previous close) times quantity. When the fetch returns one close only, the
  change, the change percent and the daily change of the entry are 0.
\<close>

theorem holding_value_and_change:
  assumes "calculate_portfolio hist pf = ((pd, tv, tdc, pct), evs)"
    and "(symb, shrs) \<in> set pf"
    and "hist symb = History h"
  shows "(2 \<le> length h \<longrightarrow>
            \<lparr>symbol = symb, price = last h, change = last h - h ! (length h - 2),
             change_pct = flt_times (np_div (last h - h ! (length h - 2))
                                            (h ! (length h - 2))) 100,
             shares = shrs, val = last h * shrs,
             daily_change = (last h - h ! (length h - 2)) * shrs\<rparr> \<in> set pd)
       \<and> (length h = 1 \<longrightarrow>
            \<lparr>symbol = symb, price = last h, change = 0, change_pct = Finite 0,
             shares = shrs, val = last h * shrs, daily_change = 0\<rparr> \<in> set pd)"
proof -
  from assms(1) have pd: "pd = included hist pf"
    by (auto simp: calculate_portfolio_included)
  have two: ?thesis if "2 \<le> length h"
    using included_member[OF assms(2) get_stock_data_two_days[of hist symb h]] assms(3) that
    by (simp add: pd)
  have one: ?thesis if "length h = 1"
    using included_member[OF assms(2) get_stock_data_one_day[of hist symb h]] assms(3) that
    by (simp add: pd)
  show ?thesis using two one by blast
qed

text \<open>
  Holding A of the scenario has two closes, holding C of the patchy provider has one.
\<close>

theorem holding_value_and_change_witness:
  "\<lparr>symbol = ''A'', price = 12, change = 2, change_pct = Finite 20,
     shares = 2, val = 24, daily_change = 4\<rparr>
     \<in> set (fst (fst (calculate_portfolio scenario_history scenario_portfolio)))
   \<and> \<lparr>symbol = ''C'', price = 7, change = 0, change_pct = Finite 0,
     shares = 3, val = 21, daily_change = 0\<rparr>
     \<in> set (fst (fst (calculate_portfolio patchy_history [(''C'', 3)])))"
proof -
  obtain pd tv tdc pct evs
    where run: "calculate_portfolio scenario_history scenario_portfolio = ((pd, tv, tdc, pct), evs)"
    by (metis prod.exhaust)
  have "(''A'', 2) \<in> set scenario_portfolio" by (simp add: scenario_portfolio_def)
  moreover have "scenario_history ''A'' = History [10, 12]" by (simp add: scenario_history_def)
  ultimately have a: "\<lparr>symbol = ''A'', price = 12, change = 2, change_pct = Finite 20,
     shares = 2, val = 24, daily_change = 4\<rparr> \<in> set pd"
    using holding_value_and_change[OF run, of "''A''" 2 "[10, 12]"]
    by (simp add: np_div_def)
  obtain pd' tv' tdc' pct' evs'
    where run': "calculate_portfolio patchy_history [(''C'', 3)] = ((pd', tv', tdc', pct'), evs')"
    by (metis prod.exhaust)
  have "patchy_history ''C'' = History [7]" by (simp add: patchy_history_def)
  then have c: "\<lparr>symbol = ''C'', price = 7, change = 0, change_pct = Finite 0,
     shares = 3, val = 21, daily_change = 0\<rparr> \<in> set pd'"
    using holding_value_and_change[OF run', of "''C''" 3 "[7]"] by simp
  from a c show ?thesis by (simp add: run run')
qed


subsection \<open>The totals\<close>

text \<open>
  Claim C5. The total value is the sum of the values of the included holdings, the total
  daily change the sum of their daily changes. For the holdings A: 2 and B: 1, with A closing
  at 10 then 12 and B at 50 then 50, the total value is 74, the total daily change 4, the
  total change percent \<open>4 / 70 * 100\<close>, and the trend chosen for that change is
  \<^verbatim>\<open>up\<close>.
\<close>

theorem portfolio_totals:
  assumes "calculate_portfolio hist pf = ((pd, tv, tdc, pct), evs)"
  shows "tv = sum_list (map val pd) \<and> tdc = sum_list (map daily_change pd)
       \<and> fst (calculate_portfolio scenario_history [(''A'', 2), (''B'', 1)])
           = ([\<lparr>symbol = ''A'', price = 12, change = 2, change_pct = Finite 20,
                 shares = 2, val = 24, daily_change = 4\<rparr>,
               \<lparr>symbol = ''B'', price = 50, change = 0, change_pct = Finite 0,
                 shares = 1, val = 50, daily_change = 0\<rparr>],
              74, 4, Finite (4 / 70 * 100))
       \<and> snd (performance (Finite 4)) = ''up''"
proof -
  from assms have "tv = sum_list (map val pd)" and "tdc = sum_list (map daily_change pd)"
    by (auto simp: calculate_portfolio_included)
  moreover have "fst (calculate_portfolio scenario_history [(''A'', 2), (''B'', 1)])
           = ([\<lparr>symbol = ''A'', price = 12, change = 2, change_pct = Finite 20,
                 shares = 2, val = 24, daily_change = 4\<rparr>,
               \<lparr>symbol = ''B'', price = 50, change = 0, change_pct = Finite 0,
                 shares = 1, val = 50, daily_change = 0\<rparr>],
              74, 4, Finite (4 / 70 * 100))"
    by (simp add: calculate_portfolio_def scenario_history_def get_stock_data_def
        np_div_def total_change_pct_of_def)
  moreover have "snd (performance (Finite 4)) = ''up''"
    by (simp add: performance_def)
  ultimately show ?thesis by blast
qed

text \<open>
  The sums at another portfolio, a long and a short position.
\<close>

theorem portfolio_totals_witness:
  "sum_list (map val (fst (fst (calculate_portfolio short_history [(''A'', 3), (''B'', -1)])))) = 20
   \<and> sum_list (map daily_change
        (fst (fst (calculate_portfolio short_history [(''A'', 3), (''B'', -1)])))) = 30"
proof -
  have run: "calculate_portfolio short_history [(''A'', 3), (''B'', -1)]
     = (([\<lparr>symbol = ''A'', price = 20, change = 10, change_pct = Finite 100,
            shares = 3, val = 60, daily_change = 30\<rparr>,
          \<lparr>symbol = ''B'', price = 40, change = 0, change_pct = Finite 0,
            shares = -1, val = -40, daily_change = 0\<rparr>],
         20, 30, Finite (-300)), [Fetch ''A'', Fetch ''B''])"
    by (simp add: calculate_portfolio_def short_history_def
      get_stock_data_def np_div_def total_change_pct_of_def)
  from portfolio_totals[OF run] show ?thesis by (simp add: run)
qed


subsection \<open>Holdings whose fetch fails\<close>

text \<open>
  Claim C6. A holding whose fetch fails (a provider error or an empty history) has no entry
  in the portfolio data; the entries and the totals are those of the portfolio restricted to
  the holdings whose fetch succeeds, so a failed holding contributes nothing; and the loop
  goes on after a failure: every holding of the portfolio is requested.
\<close>

theorem failed_fetch_excluded:
  assumes "calculate_portfolio hist pf = ((pd, tv, tdc, pct), evs)"
  shows "(\<forall>l\<in>set pd. hist (symbol l) \<noteq> ProviderError \<and> hist (symbol l) \<noteq> History [])
       \<and> fst (calculate_portfolio hist
                 (filter (\<lambda>(s, q). hist s \<noteq> ProviderError \<and> hist s \<noteq> History []) pf))
           = (pd, tv, tdc, pct)
       \<and> evs = map (Fetch \<circ> fst) pf"
proof -
  from assms have pd: "pd = included hist pf"
    by (auto simp: calculate_portfolio_included)
  have "hist (symbol l) \<noteq> ProviderError \<and> hist (symbol l) \<noteq> History []"
    if "l \<in> set pd" for l
    using included_symbol_fetched[of l hist pf] that get_stock_data_None_iff[of hist "symbol l"]
    by (simp add: pd)
  moreover have "fst (calculate_portfolio hist
                 (filter (\<lambda>(s, q). hist s \<noteq> ProviderError \<and> hist s \<noteq> History []) pf))
           = (pd, tv, tdc, pct)"
    using assms by (auto simp: calculate_portfolio_included included_filter)
  moreover have "evs = map (Fetch \<circ> fst) pf"
    using assms by (auto simp: calculate_portfolio_included)
  ultimately show ?thesis by blast
qed

text \<open>
  A portfolio of three holdings where only the second has data.
\<close>

theorem failed_fetch_excluded_witness:
  "calculate_portfolio patchy_history [(''D'', 3), (''C'', 2), (''E'', 1)]
     = (([\<lparr>symbol = ''C'', price = 7, change = 0, change_pct = Finite 0,
            shares = 2, val = 14, daily_change = 0\<rparr>], 14, 0, Finite 0),
        [Fetch ''D'', Fetch ''C'', Fetch ''E''])
   \<and> fst (calculate_portfolio patchy_history [(''C'', 2)])
     = ([\<lparr>symbol = ''C'', price = 7, change = 0, change_pct = Finite 0,
            shares = 2, val = 14, daily_change = 0\<rparr>], 14, 0, Finite 0)"
proof -
  have run: "calculate_portfolio patchy_history [(''D'', 3), (''C'', 2), (''E'', 1)]
     = (([\<lparr>symbol = ''C'', price = 7, change = 0, change_pct = Finite 0,
            shares = 2, val = 14, daily_change = 0\<rparr>], 14, 0, Finite 0),
        [Fetch ''D'', Fetch ''C'', Fetch ''E''])"
    by (simp add: calculate_portfolio_def patchy_history_def
      get_stock_data_def np_div_def total_change_pct_of_def)
  from failed_fetch_excluded[OF run] show ?thesis
    by (simp add: run patchy_history_def)
qed


subsection \<open>The trend label\<close>

text \<open>
  Claim C7, as amended. For a total daily change that is a number, the trend label chosen by
  \<open>format_message\<close> is \<^verbatim>\<open>up\<close> exactly when it is positive, \<^verbatim>\<open>down\<close> exactly
  when it is negative and \<^verbatim>\<open>flat\<close> exactly when it is 0; for plus and minus infinity
  the label is \<^verbatim>\<open>up\<close> and \<^verbatim>\<open>down\<close>. For NaN, which is neither positive nor
  negative nor 0, both comparisons fail and the label is \<^verbatim>\<open>flat\<close>. The message ends
  with the label, capitalised.
\<close>

theorem trend_label:
  "(snd (performance (Finite r)) = ''up'' \<longleftrightarrow> 0 < r)
   \<and> (snd (performance (Finite r)) = ''down'' \<longleftrightarrow> r < 0)
   \<and> (snd (performance (Finite r)) = ''flat'' \<longleftrightarrow> r = 0)
   \<and> snd (performance PosInf) = ''up''
   \<and> snd (performance NegInf) = ''down''
   \<and> snd (performance NaN) = ''flat''
   \<and> (snd (performance x) = ''flat'' \<longleftrightarrow> x = Finite 0 \<or> x = NaN)
   \<and> suffix (''*Trend:* '' @ (if 0 < r then ''Up'' else if r < 0 then ''Down'' else ''Flat''))
        (format_message f t pd tv (Finite r) pct)
   \<and> suffix ''*Trend:* Flat'' (format_message f t pd tv NaN pct)"
proof -
  have up: "capitalize ''up'' = ''Up''" by code_simp
  have down: "capitalize ''down'' = ''Down''" by code_simp
  have flat: "capitalize ''flat'' = ''Flat''" by code_simp
  have ends: "suffix (''*Trend:* '' @ capitalize (snd (performance y)))
                (format_message f t pd tv y pct)" for y
    unfolding format_message_blocks summary_def suffix_def by simp
  have fin: "suffix (''*Trend:* '' @ (if 0 < r then ''Up'' else if r < 0 then ''Down'' else ''Flat''))
        (format_message f t pd tv (Finite r) pct)"
  proof -
    have "capitalize (snd (performance (Finite r)))
            = (if 0 < r then ''Up'' else if r < 0 then ''Down'' else ''Flat'')"
      using up down flat by (simp add: performance_def del: capitalize.simps)
    with ends[of "Finite r"] show ?thesis by simp
  qed
  have nan: "suffix ''*Trend:* Flat'' (format_message f t pd tv NaN pct)"
  proof -
    have "capitalize (snd (performance NaN)) = ''Flat''"
      using flat by (simp add: performance_def del: capitalize.simps)
    with ends[of NaN] show ?thesis by simp
  qed
  have labels: "(snd (performance (Finite r)) = ''up'' \<longleftrightarrow> 0 < r)
   \<and> (snd (performance (Finite r)) = ''down'' \<longleftrightarrow> r < 0)
   \<and> (snd (performance (Finite r)) = ''flat'' \<longleftrightarrow> r = 0)
   \<and> snd (performance PosInf) = ''up''
   \<and> snd (performance NegInf) = ''down''
   \<and> snd (performance NaN) = ''flat''"
    by (auto simp: performance_def)
  have "snd (performance x) = ''flat'' \<longleftrightarrow> x = Finite 0 \<or> x = NaN"
    by (cases x) (auto simp: performance_def)
  with labels fin nan show ?thesis by blast
qed

text \<open>
  The original claim fails at NaN: the label is \<^verbatim>\<open>flat\<close> although the total daily
  change is not 0.
\<close>

theorem trend_label_nan_counterexample:
  "snd (performance NaN) = ''flat'' \<and> NaN \<noteq> Finite 0"
  by (simp add: performance_def)

subsection \<open>Delivery and the exit code\<close>

text \<open>
  Claim C8. With a configured webhook URL, \<open>send_to_slack\<close> reports success exactly
  when the webhook answers with status 200, and failure for every other status and for a
  transport error; the run makes exactly one POST; the exit code is 0 exactly when the
  delivery succeeded and 1 exactly when it failed.
\<close>

theorem delivery_outcome:
  assumes "SLACK_WEBHOOK_URL E = Some url" and "url \<noteq> []"
  shows "(fst (send_to_slack E (report E)) = Return True \<longleftrightarrow>
            (\<exists>body. requests_post E url (slack_data (report E)) post_headers 10
                      = Response 200 body))
       \<and> (fst (send_to_slack E (report E)) = Return False \<longleftrightarrow>
            (\<nexists>body. requests_post E url (slack_data (report E)) post_headers 10
                      = Response 200 body))
       \<and> length (filter is_post (snd (main E))) = 1
       \<and> (fst (main E) = 0 \<longleftrightarrow> fst (send_to_slack E (report E)) = Return True)
       \<and> (fst (main E) = 1 \<longleftrightarrow> fst (send_to_slack E (report E)) = Return False)"
proof (cases "requests_post E url (slack_data (report E)) post_headers 10")
  case (Response status_code body)
  show ?thesis
  proof (cases "status_code = 200")
    case True
    with Response assms have "send_to_slack E (report E)
        = (Return True, [Post url (slack_data (report E)) post_headers 10])"
      by (simp add: send_to_slack_def)
    with Response True show ?thesis
      by (simp add: main_report filter_is_post_fetches)
  next
    case False
    with Response assms have "send_to_slack E (report E)
        = (Return False, [Post url (slack_data (report E)) post_headers 10])"
      by (simp add: send_to_slack_def)
    with Response False show ?thesis
      by (simp add: main_report filter_is_post_fetches)
  qed
next
  case TransportError
  with assms have "send_to_slack E (report E)
      = (Return False, [Post url (slack_data (report E)) post_headers 10])"
    by (simp add: send_to_slack_def)
  with TransportError show ?thesis
    by (simp add: main_report filter_is_post_fetches)
qed

text \<open>
  The scenario of the specification against a webhook that answers 200, one that answers
  500 and one that cannot be reached.
\<close>

theorem delivery_outcome_witness:
  "fst (main (scenario_env (Some ''https://hooks.example/T'') (Response 200 ''ok''))) = 0
   \<and> fst (main (scenario_env (Some ''https://hooks.example/T'')
                 (Response 500 ''internal error''))) = 1
   \<and> fst (main (scenario_env (Some ''https://hooks.example/T'') TransportError)) = 1
   \<and> length (filter is_post
        (snd (main (scenario_env (Some ''https://hooks.example/T'')
                 (Response 500 ''internal error''))))) = 1"
  using
    delivery_outcome[of "scenario_env (Some ''https://hooks.example/T'') (Response 200 ''ok'')"
                        "''https://hooks.example/T''"]
    delivery_outcome[of "scenario_env (Some ''https://hooks.example/T'')
                           (Response 500 ''internal error'')"
                        "''https://hooks.example/T''"]
    delivery_outcome[of "scenario_env (Some ''https://hooks.example/T'') TransportError"
                        "''https://hooks.example/T''"]
  by (simp add: scenario_env_def)


subsection \<open>The marker of a holding\<close>

text \<open>
  Claim C9. The block of a holding in the message starts with the green marker exactly
  when the price change of the holding is at least 0, and with the red marker exactly when
  it is negative; a holding whose change is 0 gets the green marker. The message is the
  header, the blocks of the holdings in order, and the summary.
\<close>

theorem holding_marker:
  "(prefix green_circle (holding_block f stock) \<longleftrightarrow> 0 \<le> change stock)
   \<and> (prefix red_circle (holding_block f stock) \<longleftrightarrow> change stock < 0)
   \<and> prefix green_circle (holding_block f (stock\<lparr>change := 0\<rparr>))
   \<and> format_message f t pd tv tdc pct
       = header (fst (performance tdc)) t @ concat (map (holding_block f) pd)
         @ summary f tv tdc pct (snd (performance tdc))"
proof -
  have g: "prefix green_circle (holding_block f s)" if "0 \<le> change s" for s :: holding
    using that by (simp add: holding_block_def change_emoji_def)
  have r: "prefix red_circle (holding_block f s)" if "change s < 0" for s :: holding
    using that by (simp add: holding_block_def change_emoji_def)
  have ng: "\<not> prefix green_circle (holding_block f s)" if "change s < 0" for s :: holding
    using that by (simp add: holding_block_def change_emoji_def green_circle_def red_circle_def)
  have nr: "\<not> prefix red_circle (holding_block f s)" if "0 \<le> change s" for s :: holding
    using that by (simp add: holding_block_def change_emoji_def green_circle_def red_circle_def)
  have "prefix green_circle (holding_block f stock) \<longleftrightarrow> 0 \<le> change stock"
    using g[of stock] ng[of stock] by (cases "0 \<le> change stock") auto
  moreover have "prefix red_circle (holding_block f stock) \<longleftrightarrow> change stock < 0"
    using r[of stock] nr[of stock] by (cases "0 \<le> change stock") auto
  moreover have "prefix green_circle (holding_block f (stock\<lparr>change := 0\<rparr>))"
    by (rule g) simp
  ultimately show ?thesis using format_message_blocks by blast
qed


subsection \<open>A run where every fetch fails\<close>

text \<open>
  Claim C10. When the fetch of every holding fails, \<open>calculate_portfolio\<close> returns no
  entries and the totals 0, 0 and 0. The report is then the header line with the flat marker
  and the timestamp, an empty line, the rule of 21 dashes, the total value, the change and
  the percent, each the rendering of 0, and the trend \<^verbatim>\<open>Flat\<close>; it has no block of a
  holding. With a configured webhook URL the run posts that report after having requested
  every holding.
\<close>

theorem all_fetches_fail:
  assumes "\<forall>(s, q)\<in>set (PORTFOLIO E). history E s = ProviderError \<or> history E s = History []"
  shows "fst (calculate_portfolio (history E) (PORTFOLIO E)) = ([], 0, 0, Finite 0)
       \<and> report E =
             [CHR 0xC3, CHR 0xA2, CHR 0xC5, CHR 0xBE, CHR 0xC2, CHR 0xA1, CHR 0xC3,
              CHR 0xAF, CHR 0xC2, CHR 0xB8]
             @ '' *Portfolio Update - '' @ now E @ ''*'' @ [CHR 0x0A, CHR 0x0A]
             @ concat (replicate 21 [CHR 0xC3, CHR 0xA2, CHR 0xE2, CHR 0x80, CHR 0x9D, CHR 0xE2,
                                       CHR 0x82, CHR 0xAC])
             @ [CHR 0x0A]
             @ ''*Total Portfolio Value:* $'' @ fmt_c2f (fmt E) (Finite 0) @ [CHR 0x0A]
             @ ''*Today's Change:* $'' @ fmt_pc2f (fmt E) (Finite 0)
             @ '' ('' @ fmt_p2f (fmt E) (Finite 0) @ ''%)'' @ [CHR 0x0A]
             @ ''*Trend:* Flat''
       \<and> (\<forall>url. SLACK_WEBHOOK_URL E = Some url \<and> url \<noteq> [] \<longrightarrow>
            snd (main E) = map (Fetch \<circ> fst) (PORTFOLIO E)
              @ [Post url
                   [(''text'', report E),
                    (''username'', ''Stock Tracker Bot''),
                    (''icon_emoji'', '':chart_with_upwards_trend:'')]
                   [(''Content-Type'', ''application/json'')] 10])"
proof -
  have "included (history E) pf = []"
    if "\<forall>(s, q)\<in>set pf. history E s = ProviderError \<or> history E s = History []" for pf
    using that
  proof (induction pf)
    case Nil
    show ?case by simp
  next
    case (Cons entry rest)
    obtain symb shrs where entry: "entry = (symb, shrs)" by (cases entry)
    from Cons.prems have "get_stock_data (history E) symb = None"
      by (simp add: entry get_stock_data_None_iff)
    with Cons show ?case by (simp add: entry)
  qed
  from this[OF assms] have calc:
    "fst (calculate_portfolio (history E) (PORTFOLIO E)) = ([], 0, 0, Finite 0)"
    by (simp add: calculate_portfolio_included total_change_pct_of_def)
  have flat: "capitalize ''flat'' = ''Flat''" by code_simp
  from calc have rep: "report E =
             [CHR 0xC3, CHR 0xA2, CHR 0xC5, CHR 0xBE, CHR 0xC2, CHR 0xA1, CHR 0xC3,
              CHR 0xAF, CHR 0xC2, CHR 0xB8]
             @ '' *Portfolio Update - '' @ now E @ ''*'' @ [CHR 0x0A, CHR 0x0A]
             @ concat (replicate 21 [CHR 0xC3, CHR 0xA2, CHR 0xE2, CHR 0x80, CHR 0x9D, CHR 0xE2,
                                       CHR 0x82, CHR 0xAC])
             @ [CHR 0x0A]
             @ ''*Total Portfolio Value:* $'' @ fmt_c2f (fmt E) (Finite 0) @ [CHR 0x0A]
             @ ''*Today's Change:* $'' @ fmt_pc2f (fmt E) (Finite 0)
             @ '' ('' @ fmt_p2f (fmt E) (Finite 0) @ ''%)'' @ [CHR 0x0A]
             @ ''*Trend:* Flat''"
    unfolding report_def format_message_blocks
    by (simp add: performance_def header_def summary_def arrow_right_def box_dash_def
        nl_def flat del: capitalize.simps)
  have "snd (main E) = map (Fetch \<circ> fst) (PORTFOLIO E)
              @ [Post url (slack_data (report E)) post_headers 10]"
    if "SLACK_WEBHOOK_URL E = Some url" and "url \<noteq> []" for url
    using that
    by (cases "requests_post E url (slack_data (report E)) post_headers 10")
       (simp_all add: main_report send_to_slack_def Let_def)
  then have "\<forall>url. SLACK_WEBHOOK_URL E = Some url \<and> url \<noteq> [] \<longrightarrow>
            snd (main E) = map (Fetch \<circ> fst) (PORTFOLIO E)
              @ [Post url
                   [(''text'', report E),
                    (''username'', ''Stock Tracker Bot''),
                    (''icon_emoji'', '':chart_with_upwards_trend:'')]
                   [(''Content-Type'', ''application/json'')] 10]"
    by (simp add: slack_data_def post_headers_def)
  with calc rep show ?thesis by blast
qed

text \<open>
  Two holdings without data, a configured URL, a webhook that answers 200, and number
  formats that render every number as \<^verbatim>\<open>#\<close>.
\<close>

theorem all_fetches_fail_witness:
  "main (patchy_env (Some ''https://hooks.example/T'') (Response 200 ''ok''))
     = (0, [Fetch ''D'', Fetch ''E'',
            Post ''https://hooks.example/T''
              [(''text'',
                [CHR 0xC3, CHR 0xA2, CHR 0xC5, CHR 0xBE, CHR 0xC2, CHR 0xA1, CHR 0xC3,
              CHR 0xAF, CHR 0xC2, CHR 0xB8]
                @ '' *Portfolio Update - November 06, 2026 at 09:00 AM EST*''
                @ [CHR 0x0A, CHR 0x0A]
                @ concat (replicate 21 [CHR 0xC3, CHR 0xA2, CHR 0xE2, CHR 0x80, CHR 0x9D, CHR 0xE2,
                                       CHR 0x82, CHR 0xAC])
                @ [CHR 0x0A]
                @ ''*Total Portfolio Value:* $#'' @ [CHR 0x0A]
                @ ''*Today's Change:* $# (#%)'' @ [CHR 0x0A]
                @ ''*Trend:* Flat''),
               (''username'', ''Stock Tracker Bot''),
               (''icon_emoji'', '':chart_with_upwards_trend:'')]
              [(''Content-Type'', ''application/json'')] 10])"
proof -
  let ?E = "patchy_env (Some ''https://hooks.example/T'') (Response 200 ''ok'')"
  have fail: "\<forall>(s, q)\<in>set (PORTFOLIO ?E). history ?E s = ProviderError \<or> history ?E s = History []"
    by (simp add: patchy_env_def patchy_history_def)
  have url: "SLACK_WEBHOOK_URL ?E = Some ''https://hooks.example/T''"
    by (simp add: patchy_env_def)
  note facts = all_fetches_fail[OF fail]
  from facts have rep: "report ?E =
                [CHR 0xC3, CHR 0xA2, CHR 0xC5, CHR 0xBE, CHR 0xC2, CHR 0xA1, CHR 0xC3,
              CHR 0xAF, CHR 0xC2, CHR 0xB8]
                @ '' *Portfolio Update - November 06, 2026 at 09:00 AM EST*''
                @ [CHR 0x0A, CHR 0x0A]
                @ concat (replicate 21 [CHR 0xC3, CHR 0xA2, CHR 0xE2, CHR 0x80, CHR 0x9D, CHR 0xE2,
                                       CHR 0x82, CHR 0xAC])
                @ [CHR 0x0A]
                @ ''*Total Portfolio Value:* $#'' @ [CHR 0x0A]
                @ ''*Today's Change:* $# (#%)'' @ [CHR 0x0A]
                @ ''*Trend:* Flat''"
    by (simp add: patchy_env_def plain_formats_def)
  from facts url have ev: "snd (main ?E) = map (Fetch \<circ> fst) (PORTFOLIO ?E)
              @ [Post ''https://hooks.example/T''
                   [(''text'', report ?E),
                    (''username'', ''Stock Tracker Bot''),
                    (''icon_emoji'', '':chart_with_upwards_trend:'')]
                   [(''Content-Type'', ''application/json'')] 10]"
    by blast
  have code: "fst (main ?E) = 0"
    by (simp add: main_report send_to_slack_def patchy_env_def)
  have "main ?E = (fst (main ?E), snd (main ?E))" by simp
  also have "\<dots> = (0, [Fetch ''D'', Fetch ''E'',
            Post ''https://hooks.example/T''
              [(''text'', report ?E),
               (''username'', ''Stock Tracker Bot''),
               (''icon_emoji'', '':chart_with_upwards_trend:'')]
              [(''Content-Type'', ''application/json'')] 10])"
    unfolding code ev by (simp add: patchy_env_def)
  finally show ?thesis unfolding rep .
qed

end
